theory Spec2Isabelle
  imports
    Complex_Main
    "HOL-Library.Multiset"
    "HOL-Library.Char_ord"
    "HOL-Library.List_Lexorder"
    "HOL-Library.Product_Lexorder"
begin

section \<open>Values of the sales table\<close>

text \<open>
  The dashboard of \<^verbatim>\<open>app.py\<close> reads a CSV file into a pandas frame, derives the
  financial columns, filters the frame and aggregates it. The frame is modelled as a list
  of rows. A numeric cell holds what \<^verbatim>\<open>pd.read_csv\<close> leaves in it: an integer, a
  float, the missing value NaN, or the text of a cell that did not parse as a number.

  Floats are idealised as rationals: rounding, overflow to an infinity and the wrap-around
  of 64-bit integers are not represented, and a cell never holds an infinity.
  Text is ASCII.
\<close>

datatype cell = IntC int | FloatC rat | NaN | StrC string

datatype exn =
  FileNotFoundError | ParserError | ValueError | TypeError | ZeroDivisionError | KeyError

text \<open>A calendar date is (year, month, day); a timestamp adds the time within the day.
  Both are ordered lexicographically, which is the chronological order.\<close>

type_synonym date = "int \<times> nat \<times> nat"
type_synonym timestamp = "date \<times> nat"

text \<open>A date cell of the file either parses (\<^verbatim>\<open>pd.to_datetime\<close> yields the timestamp)
  or makes \<^verbatim>\<open>pd.to_datetime\<close> raise. Empty date cells (NaT) are outside the model.\<close>

datatype date_cell = DateText timestamp | BadDate

record raw_row =
  csv_data_venda :: date_cell
  csv_cliente :: "string option"
  csv_vendedor :: string
  csv_produto :: string
  csv_categoria :: string
  csv_fornecedor :: string
  csv_quantidade :: cell
  csv_valor_venda :: cell
  csv_valor_custo :: cell

text \<open>What \<^verbatim>\<open>pd.read_csv("vendas2018_2023.csv")\<close> finds: no file, a file that
  cannot be parsed as a table, or a table.\<close>

datatype source = Missing | Malformed | Csv "raw_row list"

record row =
  data_venda :: timestamp
  cliente :: "string option"
  vendedor :: string
  produto :: string
  categoria :: string
  fornecedor :: string
  quantidade :: cell
  valor_venda :: cell
  valor_custo :: cell
  ano :: int
  mes :: nat
  mes_ano :: string
  faturamento :: cell
  custo_total :: cell
  lucro :: cell
  margem_pct :: cell

section \<open>Cell arithmetic\<close>

text \<open>
  \<^verbatim>\<open>df['quantidade'] * df['valor_venda']\<close> works element by element. On float columns
  NaN propagates. On a column of dtype object pandas applies the Python operator to the
  pairs in which both operands are present and leaves NaN elsewhere; a text times an
  integer is Python's repetition, a text times a float raises \<^verbatim>\<open>TypeError\<close>.
\<close>

fun mul_cell :: "cell \<Rightarrow> cell \<Rightarrow> exn + cell" where
  "mul_cell NaN _ = Inr NaN"
| "mul_cell _ NaN = Inr NaN"
| "mul_cell (IntC a) (IntC b) = Inr (IntC (a * b))"
| "mul_cell (IntC a) (FloatC b) = Inr (FloatC (of_int a * b))"
| "mul_cell (FloatC a) (IntC b) = Inr (FloatC (a * of_int b))"
| "mul_cell (FloatC a) (FloatC b) = Inr (FloatC (a * b))"
| "mul_cell (StrC s) (IntC n) = Inr (StrC (concat (replicate (nat n) s)))"
| "mul_cell (IntC n) (StrC s) = Inr (StrC (concat (replicate (nat n) s)))"
| "mul_cell (StrC _) _ = Inl TypeError"
| "mul_cell _ (StrC _) = Inl TypeError"

fun sub_cell :: "cell \<Rightarrow> cell \<Rightarrow> exn + cell" where
  "sub_cell NaN _ = Inr NaN"
| "sub_cell _ NaN = Inr NaN"
| "sub_cell (IntC a) (IntC b) = Inr (IntC (a - b))"
| "sub_cell (IntC a) (FloatC b) = Inr (FloatC (of_int a - b))"
| "sub_cell (FloatC a) (IntC b) = Inr (FloatC (a - of_int b))"
| "sub_cell (FloatC a) (FloatC b) = Inr (FloatC (a - b))"
| "sub_cell (StrC _) _ = Inl TypeError"
| "sub_cell _ (StrC _) = Inl TypeError"

text \<open>\<^verbatim>\<open>x != 0\<close> on a Python value: NaN and any text differ from 0.\<close>

fun ne_zero :: "cell \<Rightarrow> bool" where
  "ne_zero (IntC a) = (a \<noteq> 0)"
| "ne_zero (FloatC a) = (a \<noteq> 0)"
| "ne_zero NaN = True"
| "ne_zero (StrC _) = True"

text \<open>The number a numeric cell stands for.\<close>

fun val :: "cell \<Rightarrow> rat" where
  "val (IntC a) = of_int a"
| "val (FloatC a) = a"
| "val NaN = 0"
| "val (StrC _) = 0"



text \<open>\<^verbatim>\<open>a / b\<close> on two Python values: text raises \<^verbatim>\<open>TypeError\<close>, NaN propagates,
  a zero divisor raises \<^verbatim>\<open>ZeroDivisionError\<close>.\<close>

fun div_cell :: "cell \<Rightarrow> cell \<Rightarrow> exn + cell" where
  "div_cell (StrC _) _ = Inl TypeError"
| "div_cell _ (StrC _) = Inl TypeError"
| "div_cell NaN _ = Inr NaN"
| "div_cell _ NaN = Inr NaN"
| "div_cell a b = (if val b = 0 then Inl ZeroDivisionError else Inr (FloatC (val a / val b)))"

text \<open>The lambda of lines 33-36:
  \<^verbatim>\<open>(x['lucro'] / x['faturamento']) if x['faturamento'] != 0 else 0.0\<close>.\<close>

definition margem :: "cell \<Rightarrow> cell \<Rightarrow> exn + cell" where
  "margem luc fat = (if ne_zero fat then div_cell luc fat else Inr (FloatC 0))"

text \<open>\<^verbatim>\<open>pd.to_numeric(col, errors='coerce').fillna(0)\<close>, lines 40-41: a text that is
  not the text of a number becomes NaN, and NaN becomes 0. The reading of a text as a
  number is the parameter \<open>parse\<close>.\<close>

fun to_numeric :: "(string \<Rightarrow> rat option) \<Rightarrow> cell \<Rightarrow> cell" where
  "to_numeric parse (StrC s) = (case parse s of None \<Rightarrow> NaN | Some v \<Rightarrow> FloatC v)"
| "to_numeric parse c = c"

fun fillna0 :: "cell \<Rightarrow> cell" where
  "fillna0 NaN = FloatC 0"
| "fillna0 c = c"

definition coerce :: "(string \<Rightarrow> rat option) \<Rightarrow> cell \<Rightarrow> cell" where
  "coerce parse c = fillna0 (to_numeric parse c)"

section \<open>Loading and preparing the data\<close>

fun to_datetime :: "date_cell \<Rightarrow> exn + timestamp" where
  "to_datetime (DateText t) = Inr t"
| "to_datetime BadDate = Inl ValueError"

definition digit :: "nat \<Rightarrow> char" where
  "digit n = ''0123456789'' ! (n mod 10)"

fun pad :: "nat \<Rightarrow> nat \<Rightarrow> string" where
  "pad 0 n = []"
| "pad (Suc w) n = pad w (n div 10) @ [digit n]"

text \<open>\<^verbatim>\<open>dt.to_period('M').astype(str)\<close>: the text YYYY-MM.\<close>

definition period_M :: "timestamp \<Rightarrow> string" where
  "period_M t = (case t of ((y, m, d), _) \<Rightarrow> pad 4 (nat y) @ ''-'' @ pad 2 m)"

text \<open>
  Lines 19-41 for one row. pandas runs each of these lines over the whole column, so the
  exception it raises first may come from another row than in a row-by-row traversal;
  the handlers of lines 44-49 do not depend on which row or operation failed.
\<close>

definition prepare_row :: "(string \<Rightarrow> rat option) \<Rightarrow> raw_row \<Rightarrow> exn + row" where
  "prepare_row parse r =
     (case to_datetime (csv_data_venda r) of Inl e \<Rightarrow> Inl e | Inr t \<Rightarrow>
      case mul_cell (csv_quantidade r) (csv_valor_venda r) of Inl e \<Rightarrow> Inl e | Inr fat \<Rightarrow>
      case mul_cell (csv_quantidade r) (csv_valor_custo r) of Inl e \<Rightarrow> Inl e | Inr custo \<Rightarrow>
      case sub_cell fat custo of Inl e \<Rightarrow> Inl e | Inr luc \<Rightarrow>
      case margem luc fat of Inl e \<Rightarrow> Inl e | Inr mar \<Rightarrow>
      Inr \<lparr> data_venda = t,
            cliente = csv_cliente r,
            vendedor = csv_vendedor r,
            produto = csv_produto r,
            categoria = csv_categoria r,
            fornecedor = csv_fornecedor r,
            quantidade = coerce parse (csv_quantidade r),
            valor_venda = coerce parse (csv_valor_venda r),
            valor_custo = coerce parse (csv_valor_custo r),
            ano = fst (fst t),
            mes = fst (snd (fst t)),
            mes_ano = period_M t,
            faturamento = coerce parse fat,
            custo_total = coerce parse custo,
            lucro = coerce parse luc,
            margem_pct = coerce parse mar \<rparr>)"

fun traverse :: "('a \<Rightarrow> exn + 'b) \<Rightarrow> 'a list \<Rightarrow> exn + 'b list" where
  "traverse f [] = Inr []"
| "traverse f (x # xs) =
     (case f x of Inl e \<Rightarrow> Inl e
      | Inr y \<Rightarrow> (case traverse f xs of Inl e \<Rightarrow> Inl e | Inr ys \<Rightarrow> Inr (y # ys)))"

fun read_csv :: "source \<Rightarrow> exn + raw_row list" where
  "read_csv Missing = Inl FileNotFoundError"
| "read_csv Malformed = Inl ParserError"
| "read_csv (Csv rows) = Inr rows"

text \<open>The body of the \<^verbatim>\<open>try\<close> block up to the sort of line 43.\<close>

definition derive :: "(string \<Rightarrow> rat option) \<Rightarrow> source \<Rightarrow> exn + row list" where
  "derive parse src =
     (case read_csv src of Inl e \<Rightarrow> Inl e | Inr rows \<Rightarrow> traverse (prepare_row parse) rows)"

text \<open>
  \<^verbatim>\<open>df.sort_values('data_venda')\<close> names no \<^verbatim>\<open>kind\<close>, so pandas sorts with its
  default \<^verbatim>\<open>'quicksort'\<close>, which promises an ascending rearrangement of the rows and
  nothing about the order of rows with equal keys (only \<^verbatim>\<open>'mergesort'\<close> and
  \<^verbatim>\<open>'stable'\<close> do). The sort is therefore a relation between the frame and the frames
  it may return; \<open>ascending\<close> is the keyword of that name (default \<^verbatim>\<open>True\<close>).
\<close>

definition sort_values ::
  "('a \<Rightarrow> 'k::linorder) \<Rightarrow> bool \<Rightarrow> 'a list \<Rightarrow> 'a list \<Rightarrow> bool" where
  "sort_values key ascending xs ys \<longleftrightarrow>
     mset ys = mset xs \<and>
     (if ascending then sorted (map key ys) else sorted (rev (map key ys)))"

datatype message = NotFoundMsg | LoadErrorMsg

text \<open>\<open>load_data\<close>, lines 12-49: the messages given to \<^verbatim>\<open>st.error\<close> and the frame
  returned.\<close>

definition load_data ::
  "(string \<Rightarrow> rat option) \<Rightarrow> source \<Rightarrow> message list \<times> row list \<Rightarrow> bool" where
  "load_data parse src out =
     (case derive parse src of
        Inl FileNotFoundError \<Rightarrow> out = ([NotFoundMsg], [])
      | Inl e \<Rightarrow> out = ([LoadErrorMsg], [])
      | Inr df \<Rightarrow> fst out = [] \<and> sort_values data_venda True df (snd out))"

text \<open>Lines 54-55: \<^verbatim>\<open>if df_raw.empty: st.stop()\<close>.\<close>

datatype flow = Stop | Continue

definition after_load :: "row list \<Rightarrow> flow" where
  "after_load df_raw = (if df_raw = [] then Stop else Continue)"

section \<open>Filters\<close>

record criteria =
  start_date :: date
  end_date :: date
  selected_years :: "int list"
  selected_cats :: "string list"
  selected_sellers :: "string list"
  selected_suppliers :: "string list"
  selected_products :: "string list"
  client_search :: string

text \<open>Lower case of an ASCII character.\<close>

definition lower :: "char \<Rightarrow> char" where
  "lower c =
     (case map_of (zip ''ABCDEFGHIJKLMNOPQRSTUVWXYZ'' ''abcdefghijklmnopqrstuvwxyz'') c of
        Some d \<Rightarrow> d
      | None \<Rightarrow> c)"

text \<open>
  \<^verbatim>\<open>str.contains(client_search, case=False, na=False)\<close> leaves \<^verbatim>\<open>regex\<close> at its
  default \<^verbatim>\<open>True\<close>: the search text is compiled as a regular expression with
  \<^verbatim>\<open>re.IGNORECASE\<close> and searched for in each client name. The model covers the
  patterns made of ordinary characters and of the dot, which matches any character but
  the newline; a pattern with another special character is outside it.
\<close>

definition other_specials :: "char list" where
  "other_specials = ''^$*+?{}[]|()'' @ [CHR 0x5C]"

definition in_fragment :: "string \<Rightarrow> bool" where
  "in_fragment pat = list_all (\<lambda>c. c \<notin> set other_specials) pat"

fun match_here :: "string \<Rightarrow> string \<Rightarrow> bool" where
  "match_here [] s = True"
| "match_here (p # ps) [] = False"
| "match_here (p # ps) (c # cs) =
     ((if p = CHR ''.'' then c \<noteq> CHR 0x0A else lower p = lower c) \<and> match_here ps cs)"

fun re_search :: "string \<Rightarrow> string \<Rightarrow> bool" where
  "re_search pat [] = match_here pat []"
| "re_search pat (c # cs) = (match_here pat (c # cs) \<or> re_search pat cs)"

text \<open>One element of the column: a missing client gives \<^verbatim>\<open>na\<close>, which is
  \<^verbatim>\<open>False\<close>.\<close>

fun str_contains :: "string \<Rightarrow> string option \<Rightarrow> bool" where
  "str_contains pat None = False"
| "str_contains pat (Some s) = re_search pat s"

definition isin :: "'a \<Rightarrow> 'a list \<Rightarrow> bool" where
  "isin x xs = (x \<in> set xs)"

text \<open>Lines 92-93: the date part of the timestamp against the two bounds.\<close>

definition mask_date :: "criteria \<Rightarrow> row \<Rightarrow> bool" where
  "mask_date c r = (start_date c \<le> fst (data_venda r) \<and> fst (data_venda r) \<le> end_date c)"

text \<open>Lines 96-109: \<^verbatim>\<open>if selected: df = df[df[col].isin(selected)]\<close>.\<close>

definition keep_selected :: "'a list \<Rightarrow> (row \<Rightarrow> 'a) \<Rightarrow> row list \<Rightarrow> row list" where
  "keep_selected selected col df = (if selected \<noteq> [] then filter (\<lambda>r. isin (col r) selected) df else df)"

text \<open>Lines 92-112. The result is \<open>None\<close> when the search text is outside the modelled
  patterns.\<close>

definition apply_filters :: "criteria \<Rightarrow> row list \<Rightarrow> row list option" where
  "apply_filters c df_raw =
     (let df1 = filter (mask_date c) df_raw;
          df2 = keep_selected (selected_years c) ano df1;
          df3 = keep_selected (selected_cats c) categoria df2;
          df4 = keep_selected (selected_sellers c) vendedor df3;
          df5 = keep_selected (selected_suppliers c) fornecedor df4;
          df6 = keep_selected (selected_products c) produto df5
      in if client_search c \<noteq> []
         then (if in_fragment (client_search c)
               then Some (filter (\<lambda>r. str_contains (client_search c) (cliente r)) df6)
               else None)
         else Some df6)"

subsection \<open>The filter as the specification words it\<close>

text \<open>
  Following the specification: the client test is a case-insensitive "contains", a
  missing client never matches, and a record is kept when it passes the date range, every
  allow-list (an empty one accepts every record) and the client test (skipped when the
  search text is empty).
\<close>

fun prefix_ci :: "string \<Rightarrow> string \<Rightarrow> bool" where
  "prefix_ci [] s = True"
| "prefix_ci (p # ps) [] = False"
| "prefix_ci (p # ps) (c # cs) = (lower p = lower c \<and> prefix_ci ps cs)"

fun contains_ci :: "string \<Rightarrow> string \<Rightarrow> bool" where
  "contains_ci pat [] = prefix_ci pat []"
| "contains_ci pat (c # cs) = (prefix_ci pat (c # cs) \<or> contains_ci pat cs)"

fun spec_client_test :: "string \<Rightarrow> string option \<Rightarrow> bool" where
  "spec_client_test pat None = False"
| "spec_client_test pat (Some s) = contains_ci pat s"

definition spec_accepts :: "criteria \<Rightarrow> row \<Rightarrow> bool" where
  "spec_accepts c r \<longleftrightarrow>
     start_date c \<le> fst (data_venda r) \<and> fst (data_venda r) \<le> end_date c \<and>
     (selected_years c = [] \<or> ano r \<in> set (selected_years c)) \<and>
     (selected_cats c = [] \<or> categoria r \<in> set (selected_cats c)) \<and>
     (selected_sellers c = [] \<or> vendedor r \<in> set (selected_sellers c)) \<and>
     (selected_suppliers c = [] \<or> fornecedor r \<in> set (selected_suppliers c)) \<and>
     (selected_products c = [] \<or> produto r \<in> set (selected_products c)) \<and>
     (client_search c = [] \<or> spec_client_test (client_search c) (cliente r))"

section \<open>Metric cards\<close>

text \<open>\<^verbatim>\<open>df[col].sum()\<close> over a column of numbers.\<close>

definition col_sum :: "(row \<Rightarrow> cell) \<Rightarrow> row list \<Rightarrow> rat" where
  "col_sum col df = sum_list (map (\<lambda>r. val (col r)) df)"









section \<open>Grouped sums\<close>

text \<open>
  \<^verbatim>\<open>df.groupby(key)[col].sum().reset_index()\<close>: one line per distinct key with the sum
  of the column over the rows of that key. \<^verbatim>\<open>groupby\<close> is called without
  \<^verbatim>\<open>sort=False\<close>, so the lines come in ascending order of the key.
\<close>

definition groupby_sum ::
  "(row \<Rightarrow> 'k::linorder) \<Rightarrow> (row \<Rightarrow> cell) \<Rightarrow> row list \<Rightarrow> ('k \<times> rat) list" where
  "groupby_sum key col df =
     map (\<lambda>k. (k, col_sum col (filter (\<lambda>r. key r = k) df))) (sort (remdups (map key df)))"

text \<open>\<^verbatim>\<open>.head(10)\<close>.\<close>

definition head10 :: "'a list \<Rightarrow> 'a list" where
  "head10 xs = take 10 xs"

text \<open>
  The Top-10 frames of lines 164, 172 and 209 are
  \<^verbatim>\<open>groupby(key)['faturamento'].sum().reset_index().sort_values('faturamento', ascending=False).head(10)\<close>:
  \<open>top10 key df out\<close> holds when \<open>out\<close> is the head of a frame that the sort may return.
\<close>

definition top10 :: "(row \<Rightarrow> 'k::linorder) \<Rightarrow> row list \<Rightarrow> ('k \<times> rat) list \<Rightarrow> ('k \<times> rat) list \<Rightarrow> bool" where
  "top10 key df sorted_frame out \<longleftrightarrow>
     sort_values snd False (groupby_sum key faturamento df) sorted_frame \<and>
     out = head10 sorted_frame"

text \<open>The order in which the keys are first met in the frame.\<close>

definition encounter_order :: "(row \<Rightarrow> 'k) \<Rightarrow> row list \<Rightarrow> 'k list" where
  "encounter_order key df = rev (remdups (rev (map key df)))"

section \<open>Detail table and export\<close>













section \<open>Sample data\<close>

text \<open>Small frames on which the theorems below are exercised.\<close>

definition parse_none :: "string \<Rightarrow> rat option" where
  "parse_none s = None"

definition day0 :: timestamp where
  "day0 = ((2023, 1, 5), 0)"

definition sale :: "string \<Rightarrow> string \<Rightarrow> cell \<Rightarrow> cell \<Rightarrow> cell \<Rightarrow> raw_row" where
  "sale cli cat q pv pc =
     \<lparr> csv_data_venda = DateText day0, csv_cliente = Some cli, csv_vendedor = ''Rui'',
       csv_produto = ''Caneta'', csv_categoria = cat, csv_fornecedor = ''Acme'',
       csv_quantidade = q, csv_valor_venda = pv, csv_valor_custo = pc \<rparr>"

definition sold ::
  "string \<Rightarrow> string \<Rightarrow> cell \<Rightarrow> cell \<Rightarrow> cell \<Rightarrow> cell \<Rightarrow> cell \<Rightarrow> cell \<Rightarrow> cell \<Rightarrow> row" where
  "sold cli cat q pv pc fat custo luc mar =
     \<lparr> data_venda = day0, cliente = Some cli, vendedor = ''Rui'', produto = ''Caneta'',
       categoria = cat, fornecedor = ''Acme'', quantidade = q, valor_venda = pv,
       valor_custo = pc, ano = 2023, mes = 1, mes_ano = ''2023-01'', faturamento = fat,
       custo_total = custo, lucro = luc, margem_pct = mar \<rparr>"

text \<open>Two sales of the same day, the second with quantity 0.\<close>

definition ana_sale :: raw_row where
  "ana_sale = sale ''Ana'' ''A'' (IntC 2) (FloatC 10) (FloatC 4)"

definition bia_sale :: raw_row where
  "bia_sale = sale ''Bia'' ''A'' (IntC 0) (FloatC 10) (FloatC 4)"

definition ana_sold :: row where
  "ana_sold = sold ''Ana'' ''A'' (IntC 2) (FloatC 10) (FloatC 4)
                (FloatC 20) (FloatC 8) (FloatC 12) (FloatC (3 / 5))"

definition bia_sold :: row where
  "bia_sold = sold ''Bia'' ''A'' (IntC 0) (FloatC 10) (FloatC 4)
                (FloatC 0) (FloatC 0) (FloatC 0) (FloatC 0)"

text \<open>The second sale with the text abc in its quantity cell.\<close>

definition bia_sale_text :: raw_row where
  "bia_sale_text = sale ''Bia'' ''A'' (StrC ''abc'') (FloatC 10) (FloatC 4)"



text \<open>
  Eighteen sales of one day that differ in the client only, and the order in which the
  partition step of a quicksort leaves eighteen equal keys: the first and the last two
  stay in place and the fifteen between them are reversed.
\<close>

definition nth_sale :: "nat \<Rightarrow> raw_row" where
  "nth_sale i = sale (pad 2 i) ''A'' (IntC 1) (FloatC 10) (FloatC 4)"

definition nth_sold :: "nat \<Rightarrow> row" where
  "nth_sold i = sold (pad 2 i) ''A'' (IntC 1) (FloatC 10) (FloatC 4)
                  (FloatC 10) (FloatC 4) (FloatC 6) (FloatC (3 / 5))"

definition eighteen_sales :: "raw_row list" where
  "eighteen_sales = map nth_sale [0..<18]"

definition partitioned :: "nat list" where
  "partitioned = [0, 15, 14, 13, 12, 11, 10, 9, 8, 7, 6, 5, 4, 3, 2, 1, 16, 17]"

text \<open>The whole of 2023, every allow-list empty, and a search text.\<close>

definition year_2023 :: "string \<Rightarrow> criteria" where
  "year_2023 search =
     \<lparr> start_date = (2023, 1, 1), end_date = (2023, 12, 31), selected_years = [],
       selected_cats = [], selected_sellers = [], selected_suppliers = [],
       selected_products = [], client_search = search \<rparr>"

text \<open>Two sales with the same revenue, the one of category B met first.\<close>

definition first_sold :: row where
  "first_sold = sold ''Ana'' ''B'' (IntC 1) (FloatC 10) (FloatC 4)
                  (FloatC 10) (FloatC 4) (FloatC 6) (FloatC (3 / 5))"

definition second_sold :: row where
  "second_sold = sold ''Bia'' ''A'' (IntC 1) (FloatC 10) (FloatC 4)
                   (FloatC 10) (FloatC 4) (FloatC 6) (FloatC (3 / 5))"

section \<open>Properties of data preparation\<close>


lemma traverse_Inl_source:
  "traverse f xs = Inl e \<Longrightarrow> \<exists>x\<in>set xs. f x = Inl e"
  by (induction xs) (auto split: sum.splits)

lemma traverse_Inl:
  "x \<in> set xs \<Longrightarrow> f x = Inl e \<Longrightarrow> \<exists>e'. traverse f xs = Inl e'"
  by (induction xs) (auto split: sum.splits)

lemma load_data_returns: "\<exists>out. load_data parse src out"
proof (cases "derive parse src")
  case (Inl e)
  then show ?thesis by (cases e) (simp_all add: load_data_def)
next
  case (Inr df)
  then have "load_data parse src ([], sort_key data_venda df)"
    by (simp add: load_data_def sort_values_def)
  then show ?thesis ..
qed








lemma prepare_row_not_file_error: "prepare_row parse raw \<noteq> Inl FileNotFoundError"
  unfolding prepare_row_def margem_def
  by (cases "csv_data_venda raw"; cases "csv_quantidade raw"; cases "csv_valor_venda raw";
      cases "csv_valor_custo raw")
     (auto split: sum.splits if_splits)

text \<open>A text in the quantity cell next to a float price makes line 28 raise, and the
  whole load ends in the handler of line 47, whatever the other rows hold.\<close>

lemma text_times_float_aborts:
  assumes "raw \<in> set rows" and "csv_data_venda raw = DateText t"
    and "csv_quantidade raw = StrC s" and "csv_valor_venda raw = FloatC p"
  shows "load_data parse (Csv rows) out \<longleftrightarrow> out = ([LoadErrorMsg], [])"
proof -
  have "prepare_row parse raw = Inl TypeError"
    using assms(2-4) by (simp add: prepare_row_def)
  with assms(1) obtain e where e: "traverse (prepare_row parse) rows = Inl e"
    using traverse_Inl by fastforce
  then obtain x where "prepare_row parse x = Inl e"
    using traverse_Inl_source by fastforce
  then have "e \<noteq> FileNotFoundError"
    using prepare_row_not_file_error by metis
  with e show ?thesis
    by (cases e) (simp_all add: load_data_def derive_def)
qed

subsection \<open>The sample frames\<close>

lemma prepare_ana: "prepare_row parse_none ana_sale = Inr ana_sold"
  by code_simp

lemma prepare_bia: "prepare_row parse_none bia_sale = Inr bia_sold"
  by code_simp


lemma prepare_bia_text: "prepare_row parse_none bia_sale_text = Inl TypeError"
  by code_simp

lemma same_day: "data_venda ana_sold = data_venda bia_sold"
  by (simp add: ana_sold_def bia_sold_def sold_def)

lemma derive_two_sales: "derive parse_none (Csv [ana_sale, bia_sale]) = Inr [ana_sold, bia_sold]"
  by (simp add: derive_def prepare_ana prepare_bia)

lemma load_two_sales: "load_data parse_none (Csv [ana_sale, bia_sale]) ([], [ana_sold, bia_sold])"
  by (simp add: load_data_def derive_two_sales sort_values_def same_day)

lemma period_day0: "period_M day0 = ''2023-01''"
  by code_simp

lemma prepare_nth: "prepare_row parse_none (nth_sale i) = Inr (nth_sold i)"
  by (simp add: prepare_row_def nth_sale_def nth_sold_def sale_def sold_def margem_def
      coerce_def period_day0)
     (simp add: day0_def)

lemma traverse_map_total:
  "(\<And>x. f (g x) = Inr (h x)) \<Longrightarrow> traverse f (map g xs) = Inr (map h xs)"
  by (induction xs) simp_all

lemma derive_eighteen: "derive parse_none (Csv eighteen_sales) = Inr (map nth_sold [0..<18])"
  unfolding derive_def eighteen_sales_def
  using traverse_map_total[of "prepare_row parse_none" nth_sale nth_sold, OF prepare_nth]
  by simp

lemma partitioned_perm: "mset partitioned = mset [0..<18]"
  by code_simp

lemma same_key_sorted: "(\<And>x. x \<in> set xs \<Longrightarrow> key x = k) \<Longrightarrow> sorted (map key xs)"
  by (induction xs) auto

lemma nth_sold_day: "data_venda (nth_sold i) = day0"
  by (simp add: nth_sold_def sold_def)

lemma load_eighteen:
  "load_data parse_none (Csv eighteen_sales) ([], map nth_sold partitioned)"
proof -
  have "mset (map nth_sold partitioned) = mset (map nth_sold [0..<18])"
    using partitioned_perm by (metis mset_map)
  moreover have "sorted (map data_venda (map nth_sold partitioned))"
    by (rule same_key_sorted[where k = day0]) (auto simp: nth_sold_day)
  ultimately show ?thesis
    by (simp add: load_data_def derive_eighteen sort_values_def del: upt.simps)
qed

lemma second_differs_from_sixteenth: "nth_sold 1 \<noteq> nth_sold 15"
  by code_simp

lemma places_in_eighteen:
  "map nth_sold [0..<18] ! 1 = nth_sold 1 \<and> map nth_sold [0..<18] ! 15 = nth_sold 15 \<and>
   map nth_sold partitioned ! 1 = nth_sold 15 \<and> map nth_sold partitioned ! 15 = nth_sold 1"
  by (simp add: partitioned_def)



subsection \<open>Derived columns\<close>






subsection \<open>Cells that are not numbers\<close>

text \<open>
  C5. The file of the two sample sales with the text abc in the quantity cell of the
  second sale: the multiplication of line 28 raises before the coercion of lines 40-41 is
  reached, and \<open>load_data\<close> returns the empty frame with the load error message. The
  same file with a number in that cell loads both rows.
\<close>

theorem text_cell_aborts_load:
  "(load_data parse_none (Csv [ana_sale, bia_sale_text]) out \<longleftrightarrow> out = ([LoadErrorMsg], [])) \<and>
   load_data parse_none (Csv [ana_sale, bia_sale]) ([], [ana_sold, bia_sold])"
  using load_two_sales by (simp add: load_data_def derive_def prepare_ana prepare_bia_text)

subsection \<open>Sources that cannot be read\<close>

text \<open>
  C7. When the file is missing or cannot be parsed, \<open>load_data\<close> returns the empty
  frame and exactly one message for the user; the caller sees the empty frame and stops.
  For every source \<open>load_data\<close> returns: no exception leaves it.
\<close>

theorem load_failure_reported:
  "(load_data parse Missing out \<longleftrightarrow> out = ([NotFoundMsg], [])) \<and>
   (load_data parse Malformed out \<longleftrightarrow> out = ([LoadErrorMsg], [])) \<and>
   after_load [] = Stop \<and>
   (\<exists>res. load_data parse src res)"
  using load_data_returns[of parse src] by (simp add: load_data_def derive_def after_load_def)

subsection \<open>Order of the prepared frame\<close>

text \<open>
  C2, amended. The frame returned by data preparation is sorted ascending by sale date
  and holds exactly the prepared rows; the order among rows of equal sale date is not
  fixed.
\<close>

theorem load_data_sorted:
  assumes "load_data parse src (msgs, df)"
  shows "sorted (map data_venda df) \<and>
         (\<forall>rows. derive parse src = Inr rows \<longrightarrow> mset df = mset rows)"
  using assms
  by (cases "derive parse src")
     (auto simp: load_data_def sort_values_def split: exn.splits)

theorem load_data_sorted_witness:
  "load_data parse_none (Csv [ana_sale, bia_sale]) ([], [ana_sold, bia_sold]) \<and>
   derive parse_none (Csv [ana_sale, bia_sale]) = Inr [ana_sold, bia_sold] \<and>
   sorted (map data_venda [ana_sold, bia_sold]) \<and>
   mset [ana_sold, bia_sold] = mset [ana_sold, bia_sold]"
  using load_data_sorted[OF load_two_sales] load_two_sales derive_two_sales by blast

theorem ties_reordered_counterexample:
  "derive parse_none (Csv eighteen_sales) = Inr (map nth_sold [0..<18]) \<and>
   map nth_sold [0..<18] ! 1 = nth_sold 1 \<and> map nth_sold [0..<18] ! 15 = nth_sold 15 \<and>
   data_venda (nth_sold 1) = data_venda (nth_sold 15) \<and> nth_sold 1 \<noteq> nth_sold 15 \<and>
   load_data parse_none (Csv eighteen_sales) ([], map nth_sold partitioned) \<and>
   map nth_sold partitioned ! 1 = nth_sold 15 \<and> map nth_sold partitioned ! 15 = nth_sold 1"
  using derive_eighteen places_in_eighteen second_differs_from_sixteenth load_eighteen
  by (simp add: nth_sold_day del: upt.simps)

section \<open>Properties of the filters\<close>

lemma match_here_literal:
  "CHR ''.'' \<notin> set pat \<Longrightarrow> match_here pat s = prefix_ci pat s"
  by (induction pat s rule: match_here.induct) auto

lemma re_search_literal:
  "CHR ''.'' \<notin> set pat \<Longrightarrow> re_search pat s = contains_ci pat s"
  by (induction s) (simp_all add: match_here_literal)

lemma str_contains_literal:
  "CHR ''.'' \<notin> set pat \<Longrightarrow> str_contains pat cli = spec_client_test pat cli"
  by (cases cli) (simp_all add: re_search_literal)

lemma keep_selected_filter:
  "keep_selected sel col df = filter (\<lambda>r. sel = [] \<or> col r \<in> set sel) df"
  by (simp add: keep_selected_def isin_def)

text \<open>The successive selections of lines 92-112 are one selection by a conjunction.\<close>

lemma filter_chain:
  "apply_filters c df =
     (if client_search c \<noteq> [] \<and> \<not> in_fragment (client_search c) then None
      else Some (filter (\<lambda>r. mask_date c r \<and>
             (selected_years c = [] \<or> ano r \<in> set (selected_years c)) \<and>
             (selected_cats c = [] \<or> categoria r \<in> set (selected_cats c)) \<and>
             (selected_sellers c = [] \<or> vendedor r \<in> set (selected_sellers c)) \<and>
             (selected_suppliers c = [] \<or> fornecedor r \<in> set (selected_suppliers c)) \<and>
             (selected_products c = [] \<or> produto r \<in> set (selected_products c)) \<and>
             (client_search c = [] \<or> str_contains (client_search c) (cliente r))) df))"
  by (simp add: apply_filters_def keep_selected_filter Let_def conj_assoc)

text \<open>With a search text of ordinary characters only, or none, the filtered frame is
  the one the specification describes.\<close>

lemma apply_filters_literal:
  assumes "in_fragment (client_search c)" and "CHR ''.'' \<notin> set (client_search c)"
  shows "apply_filters c df = Some (filter (spec_accepts c) df)"
  using assms(1) str_contains_literal[OF assms(2)]
  by (simp add: filter_chain mask_date_def spec_accepts_def[abs_def])

lemma apply_filters_no_search:
  assumes "client_search c = []"
  shows "apply_filters c df = Some (filter (spec_accepts c) df)"
  using assms by (simp add: filter_chain mask_date_def spec_accepts_def[abs_def])

text \<open>
  C3. The sidebar field is labelled as a "contains" search, but the search text is used
  as a regular expression. With the search text made of one dot, the sale of client Ana
  stays in the filtered frame, although the name Ana holds no dot and the filter of the
  specification rejects the record.
\<close>

theorem dot_search_keeps_client:
  "apply_filters (year_2023 ''.'') [ana_sold] = Some [ana_sold] \<and>
   cliente ana_sold = Some ''Ana'' \<and> \<not> contains_ci ''.'' ''Ana'' \<and>
   \<not> spec_accepts (year_2023 ''.'') ana_sold"
  by code_simp

section \<open>Properties of the metric cards\<close>



section \<open>Properties of the grouped sums\<close>



text \<open>Sorting the grouped frame, as lines 157 and 193 do, keeps the sum.\<close>

lemma sort_values_sum:
  fixes ys :: "('k \<times> rat) list"
  assumes "sort_values k asc xs ys"
  shows "sum_list (map snd ys) = sum_list (map snd xs)"
proof -
  from assms have "mset ys = mset xs" by (simp add: sort_values_def)
  then have "mset (map snd ys) = mset (map snd xs)" by simp
  then show ?thesis by (metis sum_mset_sum_list)
qed

lemma groupby_keys:
  "map fst (groupby_sum key col df) = sort (remdups (map key df))"
  by (simp add: groupby_sum_def comp_def)


text \<open>
  C6, amended. A Top-10 frame holds at most ten groups, each with its summed revenue, in
  descending order of that sum. The groups enter the sort in ascending order of their
  key, each key once, and the sort does not fix the order of groups with equal sums.
\<close>

theorem top10_descending:
  assumes "top10 key df sorted_frame out"
  shows "sorted (rev (map snd out)) \<and> length out \<le> 10 \<and>
         set out \<subseteq> set (groupby_sum key faturamento df) \<and>
         mset sorted_frame = mset (groupby_sum key faturamento df) \<and>
         sorted (map fst (groupby_sum key faturamento df)) \<and>
         distinct (map fst (groupby_sum key faturamento df))"
proof -
  from assms have m: "mset sorted_frame = mset (groupby_sum key faturamento df)"
    and s: "sorted (rev (map snd sorted_frame))" and o: "out = take 10 sorted_frame"
    by (simp_all add: top10_def sort_values_def head10_def)
  from s have "sorted_wrt (\<lambda>x y. y \<le> x) (map snd sorted_frame)"
    by (simp add: sorted_wrt_rev)
  then have "sorted_wrt (\<lambda>x y. y \<le> x) (take 10 (map snd sorted_frame))"
    by (rule sorted_wrt_take)
  then have 1: "sorted (rev (map snd out))"
    by (simp add: o sorted_wrt_rev take_map)
  have 2: "length out \<le> 10" by (simp add: o)
  from m have "set sorted_frame = set (groupby_sum key faturamento df)"
    by (rule mset_eq_setD)
  then have 3: "set out \<subseteq> set (groupby_sum key faturamento df)"
    using set_take_subset[of 10 sorted_frame] by (simp add: o)
  show ?thesis
    using 1 2 3 m by (simp add: groupby_keys)
qed

lemma groups_of_tied_sales:
  "groupby_sum categoria faturamento [first_sold, second_sold] = [(''A'', 10), (''B'', 10)]"
  by code_simp

lemma top10_of_tied_sales:
  "top10 categoria [first_sold, second_sold] [(''A'', 10), (''B'', 10)] [(''A'', 10), (''B'', 10)]"
  by (simp add: top10_def groups_of_tied_sales sort_values_def head10_def)

theorem top10_descending_witness:
  "top10 categoria [first_sold, second_sold] [(''A'', 10), (''B'', 10)] [(''A'', 10), (''B'', 10)] \<and>
   sorted (rev (map snd [(''A'', 10::rat), (''B'', 10)])) \<and>
   length [(''A'', 10::rat), (''B'', 10)] \<le> 10 \<and>
   sorted (map fst (groupby_sum categoria faturamento [first_sold, second_sold]))"
  using top10_descending[OF top10_of_tied_sales] top10_of_tied_sales by blast

theorem key_order_counterexample:
  "encounter_order categoria [first_sold, second_sold] = [''B'', ''A''] \<and>
   top10 categoria [first_sold, second_sold] [(''A'', 10), (''B'', 10)] [(''A'', 10), (''B'', 10)]"
  using top10_of_tied_sales
  by (simp add: encounter_order_def first_sold_def second_sold_def sold_def)

section \<open>Properties of the export\<close>







end
